theory Spec2Isabelle
  imports Main "HOL-Library.Sublist"
begin

section \<open>Status presentation: JobQueue.getStatusConfig and StatusBadge\<close>

text \<open>
  Status strings are lists of 8-bit characters, read as the code points U+0000 to U+00FF.
  On that range JavaScript's \<^verbatim>\<open>toLowerCase\<close> maps A-Z to a-z and the Latin-1 capitals
  U+00C0 to U+00DE (U+00D7, the multiplication sign, apart) to the letter 32 places up;
  every other character is left as it is.
\<close>

definition lower_char :: "char \<Rightarrow> char" where
  "lower_char c =
     (let n = (of_char c :: nat)
      in if (65 \<le> n \<and> n \<le> 90) \<or> (192 \<le> n \<and> n \<le> 222 \<and> n \<noteq> 215)
         then char_of (n + 32) else c)"

definition toLowerCase :: "string \<Rightarrow> string" where
  "toLowerCase s = map lower_char s"

datatype icon = CheckCircle2 | XCircle | Clock | Loader2

record status_config =
  icon :: icon
  bgColor :: string
  iconColor :: string
  pillClass :: string
  barColor :: string

definition completed_config :: status_config where
  "completed_config =
     \<lparr>icon = CheckCircle2,
      bgColor = ''bg-olive-100 dark:bg-olive-900/30'',
      iconColor = ''text-olive-600 dark:text-olive-400'',
      pillClass = ''bg-olive-100 dark:bg-olive-900/30 text-olive-700 dark:text-olive-300'',
      barColor = ''bg-olive-500''\<rparr>"

definition failed_config :: status_config where
  "failed_config =
     \<lparr>icon = XCircle,
      bgColor = ''bg-red-100 dark:bg-red-900/30'',
      iconColor = ''text-red-600 dark:text-red-400'',
      pillClass = ''bg-red-100 dark:bg-red-900/30 text-red-700 dark:text-red-300'',
      barColor = ''bg-red-500''\<rparr>"

definition processing_config :: status_config where
  "processing_config =
     \<lparr>icon = Loader2,
      bgColor = ''bg-olive-100 dark:bg-olive-900/30'',
      iconColor = ''text-olive-600 dark:text-olive-400 animate-spin'',
      pillClass = ''bg-olive-100 dark:bg-olive-900/30 text-olive-700 dark:text-olive-300'',
      barColor = ''bg-olive-500''\<rparr>"

text \<open>The last \<^verbatim>\<open>return\<close> of getStatusConfig, commented "Default / Queued" in the source.\<close>

definition default_config :: status_config where
  "default_config =
     \<lparr>icon = Clock,
      bgColor = ''bg-cream-200 dark:bg-dark-50'',
      iconColor = ''text-surface-500'',
      pillClass = ''bg-cream-200 dark:bg-dark-50 text-surface-600 dark:text-surface-400'',
      barColor = ''bg-surface-300 dark:bg-surface-700''\<rparr>"

definition getStatusConfig :: "string \<Rightarrow> status_config" where
  "getStatusConfig status =
     (let s = toLowerCase status
      in if s \<in> set [''completed'', ''done'', ''success''] then completed_config
         else if s \<in> set [''failed'', ''error''] then failed_config
         else if s \<in> set [''processing'', ''extracting'', ''transcribing'', ''detecting'',
                            ''translating'', ''diarizing''] then processing_config
         else default_config)"

text \<open>
  StatusBadge looks the status up in an object literal, \<^verbatim>\<open>statusConfig[status] || {...}\<close>.
  The lookup is by the exact string. A property read on an object literal also finds the
  members inherited from \<^verbatim>\<open>Object.prototype\<close>, which are functions or objects and so
  truthy: for those names the badge gets a value that has no \<^verbatim>\<open>bg\<close>, \<^verbatim>\<open>text\<close> or
  \<^verbatim>\<open>label\<close>.
\<close>

record badge_style =
  bg :: string
  text_colour :: string
  label :: string

datatype badge_config = Style badge_style | Inherited string

definition statusConfig :: "(string \<times> badge_style) list" where
  "statusConfig =
     [(''pending'', \<lparr>bg = ''#fef3c7'', text_colour = ''#92400e'', label = ''Pending''\<rparr>),
      (''queued'', \<lparr>bg = ''#e0e7ff'', text_colour = ''#3730a3'', label = ''Queued''\<rparr>),
      (''processing'', \<lparr>bg = ''#dbeafe'', text_colour = ''#1e40af'', label = ''Processing''\<rparr>),
      (''completed'', \<lparr>bg = ''#dcfce7'', text_colour = ''#166534'', label = ''Completed''\<rparr>),
      (''failed'', \<lparr>bg = ''#fee2e2'', text_colour = ''#dc2626'', label = ''Failed''\<rparr>),
      (''cancelled'', \<lparr>bg = ''#f3f4f6'', text_colour = ''#6b7280'', label = ''Cancelled''\<rparr>),
      (''success'', \<lparr>bg = ''#dcfce7'', text_colour = ''#166534'', label = ''Success''\<rparr>),
      (''error'', \<lparr>bg = ''#fee2e2'', text_colour = ''#dc2626'', label = ''Error''\<rparr>)]"

text \<open>The property names every object inherits from \<^verbatim>\<open>Object.prototype\<close>.\<close>

definition object_prototype_keys :: "string list" where
  "object_prototype_keys =
     [''constructor'', ''toString'', ''toLocaleString'', ''valueOf'', ''hasOwnProperty'',
      ''isPrototypeOf'', ''propertyIsEnumerable'', ''__proto__'', ''__defineGetter__'',
      ''__defineSetter__'', ''__lookupGetter__'', ''__lookupSetter__'']"

definition StatusBadge :: "string \<Rightarrow> badge_config" where
  "StatusBadge status =
     (case map_of statusConfig status of
        Some c \<Rightarrow> Style c
      | None \<Rightarrow>
          if status \<in> set object_prototype_keys then Inherited status
          else Style \<lparr>bg = ''#f3f4f6'', text_colour = ''#6b7280'', label = status\<rparr>)"

section \<open>RequestExecutor: the useApi hook\<close>

text \<open>
  JSON values as \<^verbatim>\<open>response.json()\<close> and \<^verbatim>\<open>JSON.parse\<close> produce them. JavaScript's
  \<^verbatim>\<open>null\<close> is \<open>JNull\<close>: the hook's \<^verbatim>\<open>T | null\<close> results and state are values of
  this type.
\<close>

datatype json =
    JNull
  | JBool bool
  | JNum int
  | JStr string
  | JArr "json list"
  | JObj "(string \<times> json) list"

text \<open>
  What a \<^verbatim>\<open>throw\<close> or a rejected promise carries: a JSON value (the hook throws the
  parsed error body as it is) or an Error object, given by its name and message.
\<close>

datatype js_value = Json json | ErrorObject string string

datatype 'a promise = Resolved 'a | Rejected js_value

text \<open>
  The part of a fetch Response the hook reads: the status, the content-type header and
  what \<^verbatim>\<open>response.json()\<close> settles to (\<open>Inl\<close>: it rejects with a SyntaxError of that
  message). \<^verbatim>\<open>response.ok\<close> is the platform's flag for a status from 200 to 299.
\<close>

record response =
  http_status :: nat
  content_type :: "string option"
  json_body :: "string + json"

definition ok :: "response \<Rightarrow> bool" where
  "ok r = (200 \<le> http_status r \<and> http_status r \<le> 299)"

text \<open>
  What \<^verbatim>\<open>fetch(...)\<close> settles to. It rejects with a value of the platform's or the
  caller's choosing: a TypeError on a network failure, and, since fetchData passes the
  caller's RequestInit on, the abort reason (an AbortError DOMException by default) when
  the caller's signal aborts.
\<close>

datatype fetch_result = Rejects js_value | Resolves response

record api_state =
  data :: json
  error :: js_value
  loading :: bool

definition useApi_init :: api_state where
  "useApi_init = \<lparr>data = JNull, error = Json JNull, loading = False\<rparr>"

text \<open>Decimal rendering of a number, as a template literal interpolates it.\<close>

definition digit_char :: "nat \<Rightarrow> char" where
  "digit_char d = char_of (48 + d)"

function show_nat :: "nat \<Rightarrow> string" where
  "show_nat n = (if n < 10 then [digit_char n] else show_nat (n div 10) @ [digit_char (n mod 10)])"
  by pat_completeness auto
termination
  by (relation "measure id") auto

declare show_nat.simps [simp del]

text \<open>\<^verbatim>\<open>String.prototype.includes\<close>: the needle occurs as a contiguous substring.\<close>

fun str_includes :: "string \<Rightarrow> string \<Rightarrow> bool" where
  "str_includes [] needle = (needle = [])"
| "str_includes (c # cs) needle = (prefix needle (c # cs) \<or> str_includes cs needle)"

definition unknown_error :: "nat \<Rightarrow> json" where
  "unknown_error st =
     JObj [(''error'', JStr ''unknown_error''),
           (''code'', JStr ''ERR_UNKNOWN''),
           (''message'', JStr (''HTTP '' @ show_nat st))]"

definition delete_failed :: json where
  "delete_failed =
     JObj [(''error'', JStr ''delete_failed''),
           (''code'', JStr ''ERR_DELETE''),
           (''message'', JStr ''Delete failed'')]"

definition handleResponse :: "response \<Rightarrow> json promise" where
  "handleResponse r =
     (if \<not> ok r then
        Rejected (Json (case json_body r of
                          Inr errorData \<Rightarrow> errorData
                        | Inl _ \<Rightarrow> unknown_error (http_status r)))
      else if (case content_type r of
                 Some contentType \<Rightarrow> str_includes contentType ''application/json''
               | None \<Rightarrow> False)
      then (case json_body r of
              Inr v \<Rightarrow> Resolved v
            | Inl m \<Rightarrow> Rejected (ErrorObject ''SyntaxError'' m))
      else Resolved JNull)"

text \<open>
  An async function of the hook, run to completion against what its \<^verbatim>\<open>fetch\<close> settles
  to: the state after every setter has been applied, and the promise it returns. The
  request itself (URL, method, merged headers, body) only decides what the server answers,
  which is an input here.
\<close>

definition fetchData :: "api_state \<Rightarrow> fetch_result \<Rightarrow> api_state \<times> json promise" where
  "fetchData st fr =
     (let st1 = st\<lparr>loading := True, error := Json JNull\<rparr>;
          tried = (case fr of
                     Rejects thrown \<Rightarrow> Rejected thrown
                   | Resolves r \<Rightarrow> handleResponse r)
      in case tried of
           Resolved result \<Rightarrow> (st1\<lparr>data := result, loading := False\<rparr>, Resolved result)
         | Rejected err \<Rightarrow> (st1\<lparr>error := err, loading := False\<rparr>, Resolved JNull))"

text \<open>
  post and put evaluate \<^verbatim>\<open>JSON.stringify(body)\<close> while building the argument of
  fetchData, outside its \<^verbatim>\<open>try\<close>. The serialiser is a parameter: \<open>None\<close> stands for the
  TypeError it throws on a cyclic structure or a BigInt, and then no request is issued.
\<close>

definition post ::
  "('b \<Rightarrow> string option) \<Rightarrow> api_state \<Rightarrow> 'b \<Rightarrow> fetch_result \<Rightarrow> api_state \<times> json promise" where
  "post stringify st body fr =
     (case stringify body of
        None \<Rightarrow> (st, Rejected (ErrorObject ''TypeError'' ''JSON.stringify''))
      | Some _ \<Rightarrow> fetchData st fr)"

definition put ::
  "('b \<Rightarrow> string option) \<Rightarrow> api_state \<Rightarrow> 'b \<Rightarrow> fetch_result \<Rightarrow> api_state \<times> json promise" where
  "put stringify st body fr =
     (case stringify body of
        None \<Rightarrow> (st, Rejected (ErrorObject ''TypeError'' ''JSON.stringify''))
      | Some _ \<Rightarrow> fetchData st fr)"

definition del :: "api_state \<Rightarrow> fetch_result \<Rightarrow> api_state \<times> bool promise" where
  "del st fr =
     (let st1 = st\<lparr>loading := True, error := Json JNull\<rparr>;
          tried = (case fr of
                     Rejects thrown \<Rightarrow> Rejected thrown
                   | Resolves r \<Rightarrow>
                       if \<not> ok r then
                         Rejected (Json (case json_body r of
                                           Inr errorData \<Rightarrow> errorData
                                         | Inl _ \<Rightarrow> delete_failed))
                       else Resolved True)
      in case tried of
           Resolved b \<Rightarrow> (st1\<lparr>loading := False\<rparr>, Resolved b)
         | Rejected err \<Rightarrow> (st1\<lparr>error := err, loading := False\<rparr>, Resolved False))"

text \<open>The \<^verbatim>\<open>message\<close> member of a stored error, when it is an object that has one.\<close>

definition message_of :: "js_value \<Rightarrow> string option" where
  "message_of e =
     (case e of
        Json (JObj members) \<Rightarrow> (case map_of members ''message'' of Some (JStr m) \<Rightarrow> Some m | _ \<Rightarrow> None)
      | Json _ \<Rightarrow> None
      | ErrorObject _ m \<Rightarrow> Some m)"

section \<open>PollingClient and job list: the JobList component\<close>

datatype JobStatus = Pending | Queued | Processing | Completed | Failed | Cancelled

record Job =
  job_id :: string
  filename :: "string option"
  job_status :: JobStatus
  progress :: "int option"
  created_at :: string
  started_at :: "string option"
  completed_at :: "string option"
  job_error :: "string option"
  metadata :: "(string \<times> json) list option"

text \<open>
  The two bodies the poll endpoint answers with: the \<^verbatim>\<open>PaginatedResponse<Job>\<close> envelope
  (items, total, page, page_size, has_more) or a bare array of jobs.
\<close>

datatype poll_data =
    PaginatedResponse "Job list" nat nat nat bool
  | JobArray "Job list"

text \<open>
  \<^verbatim>\<open>data.items || data\<close>: an array is truthy, the empty one too, so an envelope yields
  its items; a bare array has no \<^verbatim>\<open>items\<close> member and yields itself.
\<close>

fun items_or_data :: "poll_data \<Rightarrow> Job list" where
  "items_or_data (PaginatedResponse items _ _ _ _) = items"
| "items_or_data (JobArray js) = js"

text \<open>
  What one poll meets: \<^verbatim>\<open>fetch\<close> rejects (with an Error of that message), or it
  resolves with \<^verbatim>\<open>response.ok\<close> and with what \<^verbatim>\<open>response.json()\<close> settles to
  (\<open>Inl\<close>: it rejects with an Error of that message).
\<close>

datatype poll_result = FetchRejects string | FetchResolves bool "string + poll_data"

record job_list =
  jobs :: "Job list"
  jl_loading :: bool
  jl_error :: "string option"

definition JobList_init :: job_list where
  "JobList_init = \<lparr>jobs = [], jl_loading = True, jl_error = None\<rparr>"

definition fetchJobs :: "job_list \<Rightarrow> poll_result \<Rightarrow> job_list" where
  "fetchJobs st pr =
     (let tried = (case pr of
                     FetchRejects m \<Rightarrow> Inl m
                   | FetchResolves response_ok body \<Rightarrow>
                       if \<not> response_ok then Inl ''Failed to fetch jobs''
                       else (case body of Inl m \<Rightarrow> Inl m | Inr d \<Rightarrow> Inr (items_or_data d)))
      in case tried of
           Inr js \<Rightarrow> st\<lparr>jobs := js, jl_error := None, jl_loading := False\<rparr>
         | Inl m \<Rightarrow> st\<lparr>jl_error := Some m, jl_loading := False\<rparr>)"

text \<open>The polls of a component's life, applied in their order of arrival.\<close>

definition polls :: "job_list \<Rightarrow> poll_result list \<Rightarrow> job_list" where
  "polls st prs = foldl fetchJobs st prs"

text \<open>Vocabulary of the claims about the job list.\<close>

definition terminal :: "JobStatus \<Rightarrow> bool" where
  "terminal s = (s = Completed \<or> s = Failed \<or> s = Cancelled)"

definition lookup_job :: "string \<Rightarrow> Job list \<Rightarrow> Job option" where
  "lookup_job i js = find (\<lambda>j. job_id j = i) js"

definition status_of :: "string \<Rightarrow> Job list \<Rightarrow> JobStatus option" where
  "status_of i js = map_option job_status (lookup_job i js)"

text \<open>The job array a poll delivers, when it delivers one.\<close>

fun snapshot :: "poll_result \<Rightarrow> Job list option" where
  "snapshot (FetchResolves True (Inr d)) = Some (items_or_data d)"
| "snapshot _ = None"

section \<open>ConnectionManager: the useWebSocket hook\<close>

datatype ready_state = CONNECTING | OPEN | CLOSING | CLOSED

datatype ws_status = Ws_connecting | Ws_connected | Ws_disconnected | Ws_error

text \<open>
  The options of the hook, fixed for its life, and whether \<^verbatim>\<open>new WebSocket(url)\<close>
  accepts the hook's URL (it throws a SyntaxError on a malformed one).
\<close>

record ws_options =
  url_accepted :: bool
  reconnect :: bool
  reconnectInterval :: nat
  maxReconnectAttempts :: nat

text \<open>
  \<^verbatim>\<open>setMessage\<close> receives the parsed frame or, when parsing throws, \<^verbatim>\<open>event.data\<close>,
  the text of the frame.
\<close>

datatype message_value = Parsed json | Raw string

text \<open>
  The hook's state and refs, and the part of the browser they point into: every WebSocket
  object created so far with its readyState (a socket is named by its position), the
  pending timeouts with their delays, and the number of timeout ids handed out
  (\<^verbatim>\<open>window.setTimeout\<close> returns positive integers).
\<close>

record ws_hook =
  message :: "message_value option"
  status :: ws_status
  wsRef :: "nat option"
  reconnectAttemptsRef :: nat
  reconnectTimeoutRef :: "nat option"
  sockets :: "ready_state list"
  timers :: "(nat \<times> nat) list"
  timer_ids :: nat

definition useWebSocket_init :: ws_hook where
  "useWebSocket_init =
     \<lparr>message = None, status = Ws_disconnected, wsRef = None, reconnectAttemptsRef = 0,
      reconnectTimeoutRef = None, sockets = [], timers = [], timer_ids = 0\<rparr>"

definition readyState :: "ws_hook \<Rightarrow> nat \<Rightarrow> ready_state option" where
  "readyState st i = (if i < length (sockets st) then Some (sockets st ! i) else None)"

text \<open>\<^verbatim>\<open>wsRef.current?.readyState === WebSocket.OPEN\<close>\<close>

definition current_is_open :: "ws_hook \<Rightarrow> bool" where
  "current_is_open st = (case wsRef st of None \<Rightarrow> False | Some i \<Rightarrow> readyState st i = Some OPEN)"

definition connect :: "ws_options \<Rightarrow> ws_hook \<Rightarrow> ws_hook" where
  "connect opts st =
     (if current_is_open st then st
      else if url_accepted opts then
        st\<lparr>status := Ws_connecting,
           sockets := sockets st @ [CONNECTING],
           wsRef := Some (length (sockets st))\<rparr>
      else st\<lparr>status := Ws_error\<rparr>)"

definition onopen :: "ws_hook \<Rightarrow> ws_hook" where
  "onopen st = st\<lparr>status := Ws_connected, reconnectAttemptsRef := 0\<rparr>"

definition onmessage :: "(string \<Rightarrow> json option) \<Rightarrow> string \<Rightarrow> ws_hook \<Rightarrow> ws_hook" where
  "onmessage JSON_parse event_data st =
     (case JSON_parse event_data of
        Some d \<Rightarrow> st\<lparr>message := Some (Parsed d)\<rparr>
      | None \<Rightarrow> st\<lparr>message := Some (Raw event_data)\<rparr>)"

definition onerror :: "ws_hook \<Rightarrow> ws_hook" where
  "onerror st = st\<lparr>status := Ws_error\<rparr>"

definition onclose :: "ws_options \<Rightarrow> ws_hook \<Rightarrow> ws_hook" where
  "onclose opts st =
     (let st1 = st\<lparr>status := Ws_disconnected, wsRef := None\<rparr>
      in if reconnect opts \<and> reconnectAttemptsRef st1 < maxReconnectAttempts opts then
           st1\<lparr>reconnectAttemptsRef := reconnectAttemptsRef st1 + 1,
               reconnectTimeoutRef := Some (timer_ids st1 + 1),
               timers := timers st1 @ [(timer_ids st1 + 1, reconnectInterval opts)],
               timer_ids := timer_ids st1 + 1\<rparr>
         else st1)"

text \<open>
  \<^verbatim>\<open>ws.close()\<close> on a socket that is connecting or open starts the closing handshake;
  on a closing or closed one it does nothing. The close event comes later, as an event of
  its own.
\<close>

definition ws_close :: "nat \<Rightarrow> ws_hook \<Rightarrow> ws_hook" where
  "ws_close i st =
     (if readyState st i = Some CONNECTING \<or> readyState st i = Some OPEN
      then st\<lparr>sockets := (sockets st)[i := CLOSING]\<rparr> else st)"

definition clearTimeout :: "nat \<Rightarrow> ws_hook \<Rightarrow> ws_hook" where
  "clearTimeout t st = st\<lparr>timers := filter (\<lambda>p. fst p \<noteq> t) (timers st)\<rparr>"

definition disconnect :: "ws_hook \<Rightarrow> ws_hook" where
  "disconnect st =
     (let st1 = (case reconnectTimeoutRef st of
                   Some t \<Rightarrow> if t \<noteq> 0 then clearTimeout t st else st
                 | None \<Rightarrow> st);
          st2 = (case wsRef st1 of
                   Some i \<Rightarrow> (ws_close i st1)\<lparr>wsRef := None\<rparr>
                 | None \<Rightarrow> st1)
      in st2\<lparr>status := Ws_disconnected\<rparr>)"

text \<open>
  What can happen to a mounted hook: the caller (or the mount and unmount effect) calls
  connect or disconnect, the browser fires an event on one of the sockets, or a pending
  timeout expires and runs its callback, which calls connect.
\<close>

datatype ws_event =
    Call_connect
  | Call_disconnect
  | Open_event nat
  | Message_event nat string
  | Error_event nat
  | Close_event nat
  | Timeout_expires nat

text \<open>
  One event, \<open>None\<close> when the browser cannot produce it in this state: the open event
  comes to a connecting socket, messages to an open or closing one, error and close events
  to a socket that is not closed yet, and only a pending timeout expires.
\<close>

definition step ::
  "(string \<Rightarrow> json option) \<Rightarrow> ws_options \<Rightarrow> ws_hook \<Rightarrow> ws_event \<Rightarrow> ws_hook option" where
  "step JSON_parse opts st ev =
     (case ev of
        Call_connect \<Rightarrow> Some (connect opts st)
      | Call_disconnect \<Rightarrow> Some (disconnect st)
      | Open_event i \<Rightarrow>
          if readyState st i = Some CONNECTING
          then Some (onopen (st\<lparr>sockets := (sockets st)[i := OPEN]\<rparr>)) else None
      | Message_event i d \<Rightarrow>
          if readyState st i = Some OPEN \<or> readyState st i = Some CLOSING
          then Some (onmessage JSON_parse d st) else None
      | Error_event i \<Rightarrow>
          if readyState st i \<noteq> None \<and> readyState st i \<noteq> Some CLOSED
          then Some (onerror st) else None
      | Close_event i \<Rightarrow>
          if readyState st i \<noteq> None \<and> readyState st i \<noteq> Some CLOSED
          then Some (onclose opts (st\<lparr>sockets := (sockets st)[i := CLOSED]\<rparr>)) else None
      | Timeout_expires t \<Rightarrow>
          if t \<in> fst ` set (timers st)
          then Some (connect opts (st\<lparr>timers := filter (\<lambda>p. fst p \<noteq> t) (timers st)\<rparr>))
          else None)"

fun run ::
  "(string \<Rightarrow> json option) \<Rightarrow> ws_options \<Rightarrow> ws_hook \<Rightarrow> ws_event list \<Rightarrow> ws_hook option" where
  "run JSON_parse opts st [] = Some st"
| "run JSON_parse opts st (ev # evs) =
     (case step JSON_parse opts st ev of
        None \<Rightarrow> None
      | Some st' \<Rightarrow> run JSON_parse opts st' evs)"

text \<open>The states a hook with these options can be in.\<close>

inductive reachable :: "(string \<Rightarrow> json option) \<Rightarrow> ws_options \<Rightarrow> ws_hook \<Rightarrow> bool"
  for JSON_parse :: "string \<Rightarrow> json option" and opts :: ws_options where
  reachable_init: "reachable JSON_parse opts useWebSocket_init"
| reachable_step:
    "reachable JSON_parse opts st \<Longrightarrow> step JSON_parse opts st ev = Some st'
     \<Longrightarrow> reachable JSON_parse opts st'"

text \<open>Whether an event is a call made by the hook's caller.\<close>

fun by_caller :: "ws_event \<Rightarrow> bool" where
  "by_caller Call_connect = True"
| "by_caller Call_disconnect = True"
| "by_caller _ = False"

section \<open>Vocabulary and sample inputs of the properties\<close>

text \<open>The status strings getStatusConfig tests for, in the order of its three lists.\<close>

definition getStatusConfig_statuses :: "string list" where
  "getStatusConfig_statuses =
     [''completed'', ''done'', ''success'', ''failed'', ''error'', ''processing'',
      ''extracting'', ''transcribing'', ''detecting'', ''translating'', ''diarizing'']"




text \<open>A job with the two members the interface requires besides the status.\<close>

definition sample_job :: "string \<Rightarrow> JobStatus \<Rightarrow> Job" where
  "sample_job i s =
     \<lparr>job_id = i, filename = None, job_status = s, progress = None,
      created_at = ''2025-01-01T00:00:00Z'', started_at = None, completed_at = None,
      job_error = None, metadata = None\<rparr>"

text \<open>The defaults of the hook's options, with a URL the WebSocket constructor accepts.\<close>

definition default_options :: ws_options where
  "default_options =
     \<lparr>url_accepted = True, reconnect = True, reconnectInterval = 3000,
      maxReconnectAttempts = 5\<rparr>"

text \<open>A stand-in parser for concrete runs: it accepts the text \<^verbatim>\<open>null\<close> only.\<close>

definition parse_null_only :: "string \<Rightarrow> json option" where
  "parse_null_only s = (if s = ''null'' then Some JNull else None)"

text \<open>The hook after mounting and the open event of its first socket.\<close>

definition connected_hook :: ws_hook where
  "connected_hook =
     \<lparr>message = None, status = Ws_connected, wsRef = Some 0, reconnectAttemptsRef = 0,
      reconnectTimeoutRef = None, sockets = [OPEN], timers = [], timer_ids = 0\<rparr>"

section \<open>Properties of the status presentation\<close>

lemma lower_char_idem: "lower_char (lower_char c) = lower_char c"
  by (auto simp: lower_char_def Let_def)

lemma toLowerCase_idem: "toLowerCase (toLowerCase s) = toLowerCase s"
  by (simp add: toLowerCase_def lower_char_idem)

text \<open>
  C7, as the claim states it, fails on StatusBadge, one of the two mappings from a status
  string to its presentation: the upper-case spelling of a key misses the table and gets
  the grey fallback with the raw string as label, while the lower-case spelling gets the
  key's own style.
\<close>

theorem StatusBadge_case_variant_differs:
  "toLowerCase ''COMPLETED'' = ''completed''
   \<and> StatusBadge ''COMPLETED''
       = Style \<lparr>bg = ''#f3f4f6'', text_colour = ''#6b7280'', label = ''COMPLETED''\<rparr>
   \<and> StatusBadge ''completed''
       = Style \<lparr>bg = ''#dcfce7'', text_colour = ''#166534'', label = ''Completed''\<rparr>"
  by code_simp

text \<open>
  C7 (amended): both mappings are total functions of the status string. getStatusConfig is
  insensitive to case: every string gets the configuration of its lower-case spelling, and
  a string whose lower-case spelling is in none of the three lists gets the default
  configuration. StatusBadge matches the exact string: a string that is none of its eight
  keys and no member name inherited from Object.prototype gets the grey fallback style
  with the string itself as label.
\<close>

theorem status_presentation_total:
  "getStatusConfig s = getStatusConfig (toLowerCase s)
   \<and> (toLowerCase s \<notin> set getStatusConfig_statuses \<longrightarrow> getStatusConfig s = default_config)
   \<and> (s \<notin> fst ` set statusConfig \<and> s \<notin> set object_prototype_keys \<longrightarrow>
        StatusBadge s = Style \<lparr>bg = ''#f3f4f6'', text_colour = ''#6b7280'', label = s\<rparr>)"
proof (intro conjI impI)
  show "getStatusConfig s = getStatusConfig (toLowerCase s)"
    by (simp only: getStatusConfig_def toLowerCase_idem)
next
  assume "toLowerCase s \<notin> set getStatusConfig_statuses"
  then show "getStatusConfig s = default_config"
    by (simp add: getStatusConfig_def getStatusConfig_statuses_def)
next
  assume unmapped: "s \<notin> fst ` set statusConfig \<and> s \<notin> set object_prototype_keys"
  then have "map_of statusConfig s = None"
    by (simp add: map_of_eq_None_iff)
  with unmapped
  show "StatusBadge s = Style \<lparr>bg = ''#f3f4f6'', text_colour = ''#6b7280'', label = s\<rparr>"
    by (simp add: StatusBadge_def)
qed

theorem status_presentation_total_witness:
  "getStatusConfig ''DONE'' = getStatusConfig ''done''
   \<and> getStatusConfig ''Archived'' = default_config
   \<and> StatusBadge ''Archived''
       = Style \<lparr>bg = ''#f3f4f6'', text_colour = ''#6b7280'', label = ''Archived''\<rparr>"
proof -
  have lower: "toLowerCase ''DONE'' = ''done''"
    by code_simp
  have h1: "toLowerCase ''Archived'' \<notin> set getStatusConfig_statuses"
    by code_simp
  have h2: "''Archived'' \<notin> fst ` set statusConfig \<and> ''Archived'' \<notin> set object_prototype_keys"
    by (simp add: statusConfig_def object_prototype_keys_def)
  from status_presentation_total [of "''DONE''"] lower
  have variant: "getStatusConfig ''DONE'' = getStatusConfig ''done''"
    by simp
  from status_presentation_total [of "''Archived''"] h1 h2
  have unmapped: "getStatusConfig ''Archived'' = default_config
      \<and> StatusBadge ''Archived''
          = Style \<lparr>bg = ''#f3f4f6'', text_colour = ''#6b7280'', label = ''Archived''\<rparr>"
    by blast
  from variant unmapped show ?thesis
    by blast
qed

section \<open>Properties of the request executor\<close>

lemma str_includes_append: "str_includes (xs @ ys) ys"
  by (induction xs) (cases ys; simp)+

lemma message_of_unknown_error:
  "message_of (Json (unknown_error n)) = Some (''HTTP '' @ show_nat n)"
  by (simp add: message_of_def unknown_error_def)

lemma message_of_delete_failed: "message_of (Json delete_failed) = Some ''Delete failed''"
  by (simp add: message_of_def delete_failed_def)

lemma fetchData_not_ok:
  "\<not> ok r \<Longrightarrow> fetchData st (Resolves r) =
     (st\<lparr>loading := False,
         error := Json (case json_body r of
                          Inr e \<Rightarrow> e
                        | Inl _ \<Rightarrow> unknown_error (http_status r))\<rparr>,
      Resolved JNull)"
  by (simp add: fetchData_def handleResponse_def Let_def)

lemma del_not_ok:
  "\<not> ok r \<Longrightarrow> del st (Resolves r) =
     (st\<lparr>loading := False,
         error := Json (case json_body r of Inr e \<Rightarrow> e | Inl _ \<Rightarrow> delete_failed)\<rparr>,
      Resolved False)"
  by (simp add: del_def Let_def)

text \<open>
  The rendering is the decimal one: reading the digits back gives the number.
\<close>

lemma show_nat_digits:
  "foldl (\<lambda>a c. 10 * a + (of_char c - 48)) 0 (show_nat n) = n"
proof (induction n rule: show_nat.induct)
  case (1 n)
  show ?case
  proof (cases "n < 10")
    case True
    then show ?thesis
      by (subst show_nat.simps) (simp add: digit_char_def)
  next
    case False
    have "n mod 10 < 10" by simp
    then have digit: "(of_char (digit_char (n mod 10)) :: nat) - 48 = n mod 10"
      by (simp add: digit_char_def)
    from False "1.IH" digit show ?thesis
      by (subst show_nat.simps) simp
  qed
qed

text \<open>
  C9, as the claim states it, fails for DELETE: a 500 response whose body does not parse
  leaves the fixed error of del in the error state, and its message, "Delete failed", does
  not contain the status code.
\<close>

theorem del_fallback_lacks_status_code:
  "\<not> ok \<lparr>http_status = 500, content_type = None, json_body = Inl ''Unexpected token <''\<rparr>
   \<and> error (fst (del useApi_init
        (Resolves \<lparr>http_status = 500, content_type = None,
                   json_body = Inl ''Unexpected token <''\<rparr>)))
       = Json delete_failed
   \<and> message_of (Json delete_failed) = Some ''Delete failed''
   \<and> show_nat 500 = ''500''
   \<and> \<not> str_includes ''Delete failed'' ''500''"
  by code_simp

text \<open>
  C9 (amended): for a response with a non-success status the executor stores the parsed
  body as its error when the body parses. When it does not, fetch, post and put store the
  fallback whose message is "HTTP " followed by the decimal status code, and del stores
  its own fixed fallback, whose message is "Delete failed" and carries no status code.
\<close>

theorem non_ok_response_error:
  assumes "\<not> ok r"
  shows "error (fst (fetchData st (Resolves r))) =
           Json (case json_body r of Inr e \<Rightarrow> e | Inl _ \<Rightarrow> unknown_error (http_status r))
       \<and> error (fst (del st (Resolves r))) =
           Json (case json_body r of Inr e \<Rightarrow> e | Inl _ \<Rightarrow> delete_failed)
       \<and> (stringify body \<noteq> None \<longrightarrow>
            post stringify st body (Resolves r) = fetchData st (Resolves r)
            \<and> put stringify st body (Resolves r) = fetchData st (Resolves r))
       \<and> message_of (Json (unknown_error (http_status r)))
           = Some (''HTTP '' @ show_nat (http_status r))
       \<and> str_includes (''HTTP '' @ show_nat (http_status r)) (show_nat (http_status r))
       \<and> message_of (Json delete_failed) = Some ''Delete failed''"
proof (intro conjI impI)
  show "error (fst (fetchData st (Resolves r))) =
          Json (case json_body r of Inr e \<Rightarrow> e | Inl _ \<Rightarrow> unknown_error (http_status r))"
    using assms by (simp add: fetchData_not_ok)
  show "error (fst (del st (Resolves r))) =
          Json (case json_body r of Inr e \<Rightarrow> e | Inl _ \<Rightarrow> delete_failed)"
    using assms by (simp add: del_not_ok)
  show "message_of (Json (unknown_error (http_status r)))
          = Some (''HTTP '' @ show_nat (http_status r))"
    by (rule message_of_unknown_error)
  show "str_includes (''HTTP '' @ show_nat (http_status r)) (show_nat (http_status r))"
    by (rule str_includes_append)
  show "message_of (Json delete_failed) = Some ''Delete failed''"
    by (rule message_of_delete_failed)
next
  assume "stringify body \<noteq> None"
  then show "post stringify st body (Resolves r) = fetchData st (Resolves r)"
    by (auto simp: post_def)
next
  assume "stringify body \<noteq> None"
  then show "put stringify st body (Resolves r) = fetchData st (Resolves r)"
    by (auto simp: put_def)
qed

theorem non_ok_response_error_witness:
  "error (fst (fetchData useApi_init
        (Resolves \<lparr>http_status = 404, content_type = None, json_body = Inl ''Unexpected end''\<rparr>)))
     = Json (unknown_error 404)
   \<and> error (fst (post (\<lambda>b. Some (''{}'' :: string)) useApi_init ()
        (Resolves \<lparr>http_status = 404, content_type = None, json_body = Inl ''Unexpected end''\<rparr>)))
     = Json (unknown_error 404)
   \<and> message_of (Json (unknown_error 404)) = Some ''HTTP 404''
   \<and> error (fst (del useApi_init
        (Resolves \<lparr>http_status = 404, content_type = None,
                   json_body = Inr (JObj [(''message'', JStr ''No such job'')])\<rparr>)))
     = Json (JObj [(''message'', JStr ''No such job'')])"
proof -
  let ?r = "\<lparr>http_status = 404, content_type = None, json_body = Inl ''Unexpected end''\<rparr>"
  let ?r' = "\<lparr>http_status = 404, content_type = None,
              json_body = Inr (JObj [(''message'', JStr ''No such job'')])\<rparr>"
  have h: "\<not> ok ?r" and h': "\<not> ok ?r'"
    by (simp_all add: ok_def)
  have digits: "show_nat 404 = ''404''"
    by code_simp
  from non_ok_response_error [OF h, of useApi_init "\<lambda>b. Some (''{}'' :: string)" "()"]
       non_ok_response_error [OF h', of useApi_init "\<lambda>b. Some (''{}'' :: string)" "()"] digits
  show ?thesis by simp
qed

lemma post_rejects_when_body_unserialisable:
  "stringify body = None \<Longrightarrow> \<exists>e. snd (post stringify st body fr) = Rejected e"
  by (simp add: post_def)




section \<open>Properties of the job list\<close>

text \<open>
  The job list has one writer, fetchJobs. A poll that delivers a job array replaces the
  whole list by it; a poll that fails leaves the list as it was. Nothing merges an
  incoming job with the stored one, and the component takes no push messages and no
  deletion events.
\<close>

lemma jobs_fetchJobs:
  "jobs (fetchJobs st pr) = (case snapshot pr of Some js \<Rightarrow> js | None \<Rightarrow> jobs st)"
  by (cases pr rule: snapshot.cases) (simp_all add: fetchJobs_def Let_def split: sum.split)

lemma polls_snoc: "polls st (prs @ [pr]) = fetchJobs (polls st prs) pr"
  by (simp add: polls_def)

lemma lookup_job_absent: "i \<notin> job_id ` set js \<Longrightarrow> lookup_job i js = None"
  by (auto simp: lookup_job_def find_None_iff)

text \<open>
  C1, as the claim states it, fails: job J1 is completed after the first poll, and a
  second poll whose snapshot reports J1 as processing makes it processing again.
\<close>

theorem terminal_status_overwritten_by_poll:
  "terminal Completed
   \<and> status_of ''J1'' (jobs (polls JobList_init
        [FetchResolves True (Inr (JobArray [sample_job ''J1'' Completed]))]))
       = Some Completed
   \<and> status_of ''J1'' (jobs (polls JobList_init
        [FetchResolves True (Inr (JobArray [sample_job ''J1'' Completed])),
         FetchResolves True (Inr (JobArray [sample_job ''J1'' Processing]))]))
       = Some Processing"
  by (simp add: terminal_def polls_def fetchJobs_def status_of_def lookup_job_def
      sample_job_def JobList_init_def)

text \<open>
  C1 (amended): once a job's status in the list is terminal, a later poll leaves it as it
  is when the poll fails; when the poll delivers a snapshot, the job's status afterwards
  is the one the snapshot reports for that id, none if the snapshot omits the job.
\<close>

theorem terminal_status_after_poll:
  assumes "status_of i (jobs st) = Some s" and "terminal s"
  shows "(snapshot pr = None \<longrightarrow> status_of i (jobs (fetchJobs st pr)) = Some s)
       \<and> (\<forall>js. snapshot pr = Some js \<longrightarrow>
             status_of i (jobs (fetchJobs st pr)) = status_of i js)"
  using assms by (simp add: jobs_fetchJobs)

theorem terminal_status_after_poll_witness:
  "status_of ''J1''
     (jobs (fetchJobs \<lparr>jobs = [sample_job ''J1'' Failed], jl_loading = False, jl_error = None\<rparr>
        (FetchResolves False (Inl ''Unexpected token''))))
     = Some Failed
   \<and> status_of ''J1''
     (jobs (fetchJobs \<lparr>jobs = [sample_job ''J1'' Failed], jl_loading = False, jl_error = None\<rparr>
        (FetchResolves True (Inr (JobArray [sample_job ''J1'' Failed, sample_job ''J3'' Queued])))))
     = Some Failed"
proof -
  let ?st = "\<lparr>jobs = [sample_job ''J1'' Failed], jl_loading = False, jl_error = None\<rparr>"
  let ?js = "[sample_job ''J1'' Failed, sample_job ''J3'' Queued]"
  have h1: "status_of ''J1'' (jobs ?st) = Some Failed"
    by (simp add: status_of_def lookup_job_def sample_job_def)
  have h2: "terminal Failed"
    by (simp add: terminal_def)
  have s1: "snapshot (FetchResolves False (Inl ''Unexpected token'')) = None"
    by simp
  have s2: "snapshot (FetchResolves True (Inr (JobArray ?js))) = Some ?js"
    by simp
  have reported: "status_of ''J1'' ?js = Some Failed"
    by (simp add: status_of_def lookup_job_def sample_job_def)
  from terminal_status_after_poll [OF h1 h2, of "FetchResolves False (Inl ''Unexpected token'')"]
       terminal_status_after_poll [OF h1 h2, of "FetchResolves True (Inr (JobArray ?js))"]
       s1 s2 reported
  show ?thesis by simp
qed

text \<open>
  C2, as the claim states it, fails: the same two snapshots for job J1, applied in the
  two possible orders, leave two different records of J1.
\<close>

theorem poll_order_changes_result:
  "lookup_job ''J1'' (jobs (polls JobList_init
        [FetchResolves True (Inr (JobArray [sample_job ''J1'' Processing])),
         FetchResolves True (Inr (JobArray [sample_job ''J1'' Completed]))]))
     = Some (sample_job ''J1'' Completed)
   \<and> lookup_job ''J1'' (jobs (polls JobList_init
        [FetchResolves True (Inr (JobArray [sample_job ''J1'' Completed])),
         FetchResolves True (Inr (JobArray [sample_job ''J1'' Processing]))]))
     = Some (sample_job ''J1'' Processing)
   \<and> sample_job ''J1'' Completed \<noteq> sample_job ''J1'' Processing"
  by (simp add: polls_def fetchJobs_def lookup_job_def sample_job_def JobList_init_def)

text \<open>
  C2 (amended): after any sequence of polls the job list is the snapshot delivered last
  in arrival order, or the initial list when no poll delivered one. The result depends on
  the order of arrival only through which snapshot comes last.
\<close>

theorem polls_last_snapshot_wins:
  "jobs (polls st prs) = last (jobs st # List.map_filter snapshot prs)"
proof (induction prs rule: rev_induct)
  case Nil
  show ?case
    by (simp add: polls_def List.map_filter_def)
next
  case (snoc pr prs)
  show ?case
  proof (cases "snapshot pr")
    case None
    with snoc show ?thesis
      by (simp add: polls_snoc jobs_fetchJobs List.map_filter_def)
  next
    case (Some js)
    then show ?thesis
      by (simp add: polls_snoc jobs_fetchJobs List.map_filter_def)
  qed
qed

text \<open>
  C3, as the claim states it, fails: J2 is in the list after the first poll, and a second
  poll whose page holds J1 only removes it, with no deletion event at all.
\<close>

theorem job_omitted_by_snapshot_is_dropped:
  "lookup_job ''J2'' (jobs (polls JobList_init
        [FetchResolves True (Inr (JobArray [sample_job ''J1'' Processing, sample_job ''J2'' Queued]))]))
     = Some (sample_job ''J2'' Queued)
   \<and> lookup_job ''J2'' (jobs (polls JobList_init
        [FetchResolves True (Inr (JobArray [sample_job ''J1'' Processing, sample_job ''J2'' Queued])),
         FetchResolves True (Inr (PaginatedResponse [sample_job ''J1'' Processing] 2 1 1 True))]))
     = None"
  by (simp add: polls_def fetchJobs_def lookup_job_def sample_job_def JobList_init_def)

text \<open>
  C3 (amended): a job in the list stays present and unchanged across a poll that fails. A
  poll that delivers a snapshot makes the list equal to that snapshot, so a job the
  snapshot omits is no longer in the list afterwards.
\<close>

theorem job_presence_after_poll:
  assumes "lookup_job i (jobs st) = Some j"
  shows "(snapshot pr = None \<longrightarrow> lookup_job i (jobs (fetchJobs st pr)) = Some j)
       \<and> (\<forall>js. snapshot pr = Some js \<longrightarrow> jobs (fetchJobs st pr) = js)
       \<and> (\<forall>js. snapshot pr = Some js \<and> i \<notin> job_id ` set js \<longrightarrow>
             lookup_job i (jobs (fetchJobs st pr)) = None)"
  using assms by (simp add: jobs_fetchJobs lookup_job_absent)

theorem job_presence_after_poll_witness:
  "lookup_job ''J2''
     (jobs (fetchJobs \<lparr>jobs = [sample_job ''J2'' Queued], jl_loading = False, jl_error = None\<rparr>
        (FetchRejects ''Failed to fetch'')))
     = Some (sample_job ''J2'' Queued)
   \<and> lookup_job ''J2''
     (jobs (fetchJobs \<lparr>jobs = [sample_job ''J2'' Queued], jl_loading = False, jl_error = None\<rparr>
        (FetchResolves True (Inr (PaginatedResponse [sample_job ''J1'' Processing] 2 1 1 True)))))
     = None"
proof -
  let ?st = "\<lparr>jobs = [sample_job ''J2'' Queued], jl_loading = False, jl_error = None\<rparr>"
  let ?page = "PaginatedResponse [sample_job ''J1'' Processing] 2 1 1 True"
  have h: "lookup_job ''J2'' (jobs ?st) = Some (sample_job ''J2'' Queued)"
    by (simp add: lookup_job_def sample_job_def)
  have s1: "snapshot (FetchRejects ''Failed to fetch'') = None"
    by simp
  have s2: "snapshot (FetchResolves True (Inr ?page)) = Some [sample_job ''J1'' Processing]"
    by simp
  have omitted: "''J2'' \<notin> job_id ` set [sample_job ''J1'' Processing]"
    by (simp add: sample_job_def)
  from job_presence_after_poll [OF h, of "FetchRejects ''Failed to fetch''"] s1
  have kept: "lookup_job ''J2'' (jobs (fetchJobs ?st (FetchRejects ''Failed to fetch'')))
      = Some (sample_job ''J2'' Queued)"
    by blast
  from job_presence_after_poll [OF h, of "FetchResolves True (Inr ?page)"] s2 omitted
  have dropped: "lookup_job ''J2'' (jobs (fetchJobs ?st (FetchResolves True (Inr ?page)))) = None"
    by blast
  from kept dropped show ?thesis
    by (rule conjI)
qed

section \<open>Properties of the connection manager\<close>

lemmas ws_defs =
  step_def connect_def disconnect_def onopen_def onclose_def onerror_def onmessage_def
  ws_close_def clearTimeout_def readyState_def current_is_open_def

lemma run_reachable:
  "reachable P opts st \<Longrightarrow> run P opts st evs = Some st' \<Longrightarrow> reachable P opts st'"
proof (induction evs arbitrary: st)
  case Nil
  then show ?case by simp
next
  case (Cons ev evs)
  then show ?case
    by (auto split: option.splits intro: reachable_step)
qed

lemma connected_hook_run:
  "run P default_options useWebSocket_init [Call_connect, Open_event 0] = Some connected_hook"
  by (simp add: ws_defs useWebSocket_init_def default_options_def connected_hook_def)

lemma connected_hook_reachable: "reachable P default_options connected_hook"
  using run_reachable [OF reachable_init connected_hook_run] .

text \<open>
  What disconnect does achieve: the status is disconnected, the socket reference is
  dropped, the timeout the hook last armed is no longer pending, and the socket that was
  current is neither connecting nor open any more.
\<close>

lemma disconnect_effects:
  "status (disconnect st) = Ws_disconnected
   \<and> wsRef (disconnect st) = None
   \<and> (\<forall>t. reconnectTimeoutRef st = Some t \<and> t \<noteq> 0 \<longrightarrow> t \<notin> fst ` set (timers (disconnect st)))
   \<and> (\<forall>i. wsRef st = Some i \<longrightarrow>
         readyState (disconnect st) i \<noteq> Some CONNECTING
         \<and> readyState (disconnect st) i \<noteq> Some OPEN)"
  by (auto simp: disconnect_def ws_close_def clearTimeout_def readyState_def Let_def
      split: option.splits)

text \<open>
  What it does not achieve: with auto-reconnect on and the counter below the maximum, the
  close event of the socket that disconnect closed arms a new timeout, and its expiry opens
  a new socket.
\<close>

lemma disconnect_does_not_stop_reconnect:
  assumes on: "reconnect opts" and url: "url_accepted opts"
    and below: "reconnectAttemptsRef st < maxReconnectAttempts opts"
    and cur: "wsRef st = Some i" and opn: "readyState st i = Some OPEN"
  shows "\<exists>st'. run P opts st [Call_disconnect, Close_event i, Timeout_expires (timer_ids st + 1)]
                 = Some st'
              \<and> sockets st' = (sockets st)[i := CLOSED] @ [CONNECTING]
              \<and> status st' = Ws_connecting"
proof -
  define s1 where "s1 = disconnect st"
  from opn have i: "i < length (sockets st)"
    by (simp add: readyState_def split: if_splits)
  from cur opn i have s1: "sockets s1 = (sockets st)[i := CLOSING]" "wsRef s1 = None"
      "reconnectAttemptsRef s1 = reconnectAttemptsRef st" "timer_ids s1 = timer_ids st"
    by (simp_all add: s1_def disconnect_def ws_close_def clearTimeout_def readyState_def Let_def
        split: option.splits)
  define s2 where "s2 = onclose opts (s1\<lparr>sockets := (sockets s1)[i := CLOSED]\<rparr>)"
  from s1 i have step2: "step P opts s1 (Close_event i) = Some s2"
    by (simp add: step_def readyState_def s2_def)
  from s1 i on below have s2: "sockets s2 = (sockets st)[i := CLOSED]" "wsRef s2 = None"
      "timer_ids st + 1 \<in> fst ` set (timers s2)"
    by (simp_all add: s2_def onclose_def Let_def)
  define s3 where
    "s3 = connect opts (s2\<lparr>timers := filter (\<lambda>p. fst p \<noteq> timer_ids st + 1) (timers s2)\<rparr>)"
  from s2 have step3: "step P opts s2 (Timeout_expires (timer_ids st + 1)) = Some s3"
    by (simp add: step_def s3_def)
  from s2 url have s3: "sockets s3 = (sockets st)[i := CLOSED] @ [CONNECTING]"
      "status s3 = Ws_connecting"
    by (simp_all add: s3_def connect_def current_is_open_def)
  have "run P opts st [Call_disconnect, Close_event i, Timeout_expires (timer_ids st + 1)] = Some s3"
    using step2 step3 by (simp add: step_def s1_def [symmetric])
  with s3 show ?thesis by blast
qed

text \<open>
  C4: the hook, with its default options, mounts and its socket opens; the caller then
  calls disconnect. The socket is closing, no timeout is pending and the status is
  disconnected. The close event of that socket then runs the onclose handler that connect
  left on it: it counts a reconnect attempt and arms a timeout, and when the timeout
  expires connect runs and opens a second socket. Neither event is a call of the caller.
\<close>

theorem disconnect_then_close_event_reconnects:
  "map_option (\<lambda>s. (status s, wsRef s, sockets s, timers s))
     (run parse_null_only default_options useWebSocket_init [Call_connect, Open_event 0, Call_disconnect])
     = Some (Ws_disconnected, None, [CLOSING], [])
   \<and> map_option (\<lambda>s. (status s, wsRef s, sockets s, timers s, reconnectAttemptsRef s))
     (run parse_null_only default_options useWebSocket_init
        [Call_connect, Open_event 0, Call_disconnect, Close_event 0])
     = Some (Ws_disconnected, None, [CLOSED], [(1, 3000)], 1)
   \<and> map_option (\<lambda>s. (status s, wsRef s, sockets s, timers s))
     (run parse_null_only default_options useWebSocket_init
        [Call_connect, Open_event 0, Call_disconnect, Close_event 0, Timeout_expires 1])
     = Some (Ws_connecting, Some 1, [CLOSED, CONNECTING], [])
   \<and> \<not> by_caller (Close_event 0) \<and> \<not> by_caller (Timeout_expires 1)"
  by (simp add: ws_defs useWebSocket_init_def default_options_def Let_def)

text \<open>
  The guard of connect: when the socket the hook currently refers to is open, connect
  changes nothing.
\<close>

lemma connect_when_current_open: "current_is_open st \<Longrightarrow> connect opts st = st"
  by (simp add: connect_def)

text \<open>
  C5: the hook mounts, and connect is called again before the open event of the first
  socket. The guard of connect tests for an open socket only, so the call creates a second
  socket and moves the hook's one reference to it; the first socket stays alive with its
  handlers. Both sockets then open, and two live sockets feed one hook. When the first
  one closes, its onclose handler clears the reference to the second, which is still open,
  sets the status to disconnected and arms a reconnect.
\<close>

theorem connect_while_connecting_opens_second_socket:
  "map_option (\<lambda>s. (status s, wsRef s, sockets s))
     (run parse_null_only default_options useWebSocket_init [Call_connect])
     = Some (Ws_connecting, Some 0, [CONNECTING])
   \<and> map_option (\<lambda>s. (status s, wsRef s, sockets s))
     (run parse_null_only default_options useWebSocket_init [Call_connect, Call_connect])
     = Some (Ws_connecting, Some 1, [CONNECTING, CONNECTING])
   \<and> map_option (\<lambda>s. (status s, wsRef s, sockets s))
     (run parse_null_only default_options useWebSocket_init
        [Call_connect, Call_connect, Open_event 0, Open_event 1])
     = Some (Ws_connected, Some 1, [OPEN, OPEN])
   \<and> map_option (\<lambda>s. (status s, wsRef s, sockets s, timers s))
     (run parse_null_only default_options useWebSocket_init
        [Call_connect, Call_connect, Open_event 0, Open_event 1, Close_event 0])
     = Some (Ws_disconnected, None, [CLOSED, OPEN], [(1, 3000)])"
  by (simp add: ws_defs useWebSocket_init_def default_options_def Let_def)

lemma step_attempts:
  assumes "step P opts st ev = Some st'"
  shows "reconnectAttemptsRef st' =
     (case ev of
        Open_event _ \<Rightarrow> 0
      | Close_event _ \<Rightarrow>
          if reconnect opts \<and> reconnectAttemptsRef st < maxReconnectAttempts opts
          then reconnectAttemptsRef st + 1 else reconnectAttemptsRef st
      | _ \<Rightarrow> reconnectAttemptsRef st)"
  using assms
  by (cases ev) (auto simp: ws_defs Let_def split: if_splits option.splits)

lemma step_into_connected:
  assumes "step P opts st ev = Some st'" and "status st' = Ws_connected"
    and "status st \<noteq> Ws_connected"
  shows "\<exists>i. ev = Open_event i"
  using assms
  by (cases ev) (auto simp: ws_defs Let_def split: if_splits option.splits)

lemma step_close_arms_retry:
  assumes "step P opts st (Close_event i) = Some st'"
  shows "timers st' =
     (if reconnect opts \<and> reconnectAttemptsRef st < maxReconnectAttempts opts
      then timers st @ [(timer_ids st + 1, reconnectInterval opts)] else timers st)"
  using assms by (auto simp: ws_defs Let_def split: if_splits)

lemma reachable_attempts:
  "reachable P opts st \<Longrightarrow> reconnectAttemptsRef st \<le> maxReconnectAttempts opts"
proof (induction rule: reachable.induct)
  case reachable_init
  show ?case by (simp add: useWebSocket_init_def)
next
  case (reachable_step st ev st')
  from step_attempts [OF reachable_step.hyps(2)] reachable_step.IH show ?case
    by (cases ev) (auto split: if_splits)
qed

text \<open>
  C6: in every reachable state of the hook the reconnect counter is at most
  maxReconnectAttempts. An event changes it in two ways only: a close event that arms the
  retry timeout (auto-reconnect on and the counter below the maximum) adds one, and an
  open event, the only event that takes the status to connected, sets it to zero.
\<close>

theorem reconnect_attempts_bounded:
  assumes "reachable P opts st"
  shows "reconnectAttemptsRef st \<le> maxReconnectAttempts opts
       \<and> (\<forall>ev st'. step P opts st ev = Some st' \<longrightarrow>
            reconnectAttemptsRef st' \<le> maxReconnectAttempts opts
            \<and> reconnectAttemptsRef st' =
                (case ev of
                   Open_event _ \<Rightarrow> 0
                 | Close_event _ \<Rightarrow>
                     if reconnect opts \<and> reconnectAttemptsRef st < maxReconnectAttempts opts
                     then reconnectAttemptsRef st + 1 else reconnectAttemptsRef st
                 | _ \<Rightarrow> reconnectAttemptsRef st)
            \<and> (status st' = Ws_connected \<and> status st \<noteq> Ws_connected \<longrightarrow>
                 (\<exists>i. ev = Open_event i) \<and> reconnectAttemptsRef st' = 0)
            \<and> (\<forall>i. ev = Close_event i \<longrightarrow>
                 timers st' =
                   (if reconnect opts \<and> reconnectAttemptsRef st < maxReconnectAttempts opts
                    then timers st @ [(timer_ids st + 1, reconnectInterval opts)]
                    else timers st)))"
proof (intro conjI allI impI)
  show "reconnectAttemptsRef st \<le> maxReconnectAttempts opts"
    using assms by (rule reachable_attempts)
next
  fix ev st'
  assume s: "step P opts st ev = Some st'"
  from assms s have "reachable P opts st'"
    by (rule reachable_step)
  then show "reconnectAttemptsRef st' \<le> maxReconnectAttempts opts"
    by (rule reachable_attempts)
  from s show "reconnectAttemptsRef st' =
      (case ev of
         Open_event _ \<Rightarrow> 0
       | Close_event _ \<Rightarrow>
           if reconnect opts \<and> reconnectAttemptsRef st < maxReconnectAttempts opts
           then reconnectAttemptsRef st + 1 else reconnectAttemptsRef st
       | _ \<Rightarrow> reconnectAttemptsRef st)"
    by (rule step_attempts)
  {
    assume c: "status st' = Ws_connected \<and> status st \<noteq> Ws_connected"
    with s show "\<exists>i. ev = Open_event i"
      by (blast dest: step_into_connected)
    then obtain i where "ev = Open_event i" ..
    with step_attempts [OF s] show "reconnectAttemptsRef st' = 0"
      by simp
  }
  {
    fix i
    assume "ev = Close_event i"
    with s show "timers st' =
        (if reconnect opts \<and> reconnectAttemptsRef st < maxReconnectAttempts opts
         then timers st @ [(timer_ids st + 1, reconnectInterval opts)] else timers st)"
      using step_close_arms_retry by blast
  }
qed

theorem reconnect_attempts_bounded_witness:
  "reachable parse_null_only default_options connected_hook
   \<and> reconnectAttemptsRef connected_hook \<le> maxReconnectAttempts default_options
   \<and> map_option reconnectAttemptsRef
       (step parse_null_only default_options connected_hook (Close_event 0)) = Some 1
   \<and> map_option timers
       (step parse_null_only default_options connected_hook (Close_event 0)) = Some [(1, 3000)]"
proof -
  let ?st' = "connected_hook\<lparr>sockets := [CLOSED], status := Ws_disconnected, wsRef := None,
      reconnectAttemptsRef := 1, reconnectTimeoutRef := Some 1, timers := [(1, 3000)],
      timer_ids := 1\<rparr>"
  have r: "reachable parse_null_only default_options connected_hook"
    by (rule connected_hook_reachable)
  have s: "step parse_null_only default_options connected_hook (Close_event 0) = Some ?st'"
    by (simp add: ws_defs default_options_def connected_hook_def)
  from reconnect_attempts_bounded [OF r] s
  have "reconnectAttemptsRef connected_hook \<le> maxReconnectAttempts default_options
      \<and> reconnectAttemptsRef ?st' \<le> maxReconnectAttempts default_options"
    by blast
  with r s show ?thesis
    by (simp add: connected_hook_def)
qed

text \<open>
  C8: when parsing an incoming frame throws, the onmessage handler sets the hook's message
  to the frame's data as received and changes nothing else; the handler has no other
  outcome, so a message event on an open socket always yields that state.
\<close>

theorem unparseable_frame_forwarded_raw:
  assumes "JSON_parse d = None"
  shows "onmessage JSON_parse d st = st\<lparr>message := Some (Raw d)\<rparr>
       \<and> (readyState st i = Some OPEN \<longrightarrow>
            step JSON_parse opts st (Message_event i d) = Some (st\<lparr>message := Some (Raw d)\<rparr>))"
  using assms by (simp add: onmessage_def step_def)

theorem unparseable_frame_forwarded_raw_witness:
  "parse_null_only ''job J1 done'' = None
   \<and> readyState connected_hook 0 = Some OPEN
   \<and> step parse_null_only default_options connected_hook (Message_event 0 ''job J1 done'')
       = Some (connected_hook\<lparr>message := Some (Raw ''job J1 done'')\<rparr>)"
proof -
  have h: "parse_null_only ''job J1 done'' = None"
    by (simp add: parse_null_only_def)
  have sock: "readyState connected_hook 0 = Some OPEN"
    by (simp add: readyState_def connected_hook_def)
  from unparseable_frame_forwarded_raw
         [of parse_null_only "''job J1 done''" connected_hook 0 default_options] h sock
  show ?thesis by blast
qed


end
